theory Spec2Isabelle
  imports Main "HOL-Library.AList"
begin

section \<open>Python values, errors and messages\<close>

text \<open>
  The module \<^verbatim>\<open>camel/model_backend.py\<close> works on Python dictionaries, lists, strings and
  integers. Exceptions are values of \<open>error\<close>; a computation that may raise returns
  \<open>error + 'a\<close> with \<open>Inl\<close> for the exception. \<open>ExternalError\<close> stands for whatever a
  collaborator outside the module (tokenizer, vendor client, logging) raises.
\<close>

datatype error =
    KeyError string
  | TypeError string
  | ValueError string
  | RuntimeError string
  | ExternalError string

datatype pyval =
    PNone
  | PBool bool
  | PInt int
  | PStr string
  | PList "pyval list"
  | PDict "(string \<times> pyval) list"

type_synonym pydict = "(string \<times> pyval) list"

text \<open>A chat message: the dictionary \<^verbatim>\<open>{"role": ..., "content": ...}\<close>. Roles are strings.\<close>

record message =
  role :: string
  content :: string

section \<open>String helpers\<close>

text \<open>Python's \<^verbatim>\<open>sub in s\<close> on strings: \<open>sub\<close> occurs in \<open>s\<close> as a contiguous block.\<close>

fun startswith :: "string \<Rightarrow> string \<Rightarrow> bool" where
  "startswith s [] = True"
| "startswith [] (p # ps) = False"
| "startswith (c # cs) (p # ps) = (c = p \<and> startswith cs ps)"

fun py_in :: "string \<Rightarrow> string \<Rightarrow> bool" where
  "py_in sub [] = (sub = [])"
| "py_in sub (c # cs) = (startswith (c # cs) sub \<or> py_in sub cs)"

text \<open>Python's \<^verbatim>\<open>sep.join(parts)\<close>.\<close>

fun join :: "string \<Rightarrow> string list \<Rightarrow> string" where
  "join sep [] = []"
| "join sep [p] = p"
| "join sep (p # q # ps) = p @ sep @ join sep (q # ps)"

section \<open>ErnieModel: message conversion and response conversion\<close>

text \<open>
  \<^verbatim>\<open>ErnieModel.messages_reformat_as_ernie\<close>: the \<^verbatim>\<open>for\<close> loop over the messages, with
  its two loop variables \<^verbatim>\<open>last_message_be_user_flag\<close> and \<^verbatim>\<open>ernie_messages\<close>.
\<close>

fun reformat_loop :: "bool \<Rightarrow> message list \<Rightarrow> message list \<Rightarrow> message list" where
  "reformat_loop last_message_be_user_flag ernie_messages [] = ernie_messages"
| "reformat_loop last_message_be_user_flag ernie_messages (m # messages) =
     (if py_in ''ass'' (role m)
      then reformat_loop False
             (ernie_messages @ [\<lparr>role = ''assistant'', content = content m\<rparr>]) messages
      else reformat_loop True
             ((if last_message_be_user_flag
               then ernie_messages @ [\<lparr>role = ''assistant'', content = ''Got it.''\<rparr>]
               else ernie_messages)
              @ [\<lparr>role = ''user'', content = content m\<rparr>]) messages)"

definition messages_reformat_as_ernie :: "message list \<Rightarrow> message list" where
  "messages_reformat_as_ernie messages = reformat_loop False [] messages"

text \<open>
  The turn emitted for one message, in the words of the description of the converter: an
  assistant turn when the role contains "ass", a user turn otherwise, with the content
  kept. It is compared with the loop below.
\<close>

definition ernie_turn :: "message \<Rightarrow> message" where
  "ernie_turn m =
     \<lparr>role = (if py_in ''ass'' (role m) then ''assistant'' else ''user''), content = content m\<rparr>"

text \<open>Properties of a converted message list.\<close>

fun consecutive_user_turns :: "message list \<Rightarrow> bool" where
  "consecutive_user_turns (m1 # m2 # ms) =
     ((role m1 = ''user'' \<and> role m2 = ''user'') \<or> consecutive_user_turns (m2 # ms))"
| "consecutive_user_turns ms = False"

definition starts_with_role :: "string \<Rightarrow> message list \<Rightarrow> bool" where
  "starts_with_role r ms = (case ms of [] \<Rightarrow> False | m # _ \<Rightarrow> role m = r)"

text \<open>
  \<^verbatim>\<open>ErnieModel.result_format_as_openai\<close>. The provider's response object is opaque; the
  method only calls \<^verbatim>\<open>response.get_result()\<close>, which is a parameter here.
\<close>

definition result_format_as_openai :: "('r \<Rightarrow> pyval) \<Rightarrow> 'r \<Rightarrow> pyval" where
  "result_format_as_openai get_result response =
     PDict [
       (''id'', PStr ''xxxxxxxxxxxxxxxxxxxxx''),
       (''object'', PStr ''chat.completion''),
       (''created'', PInt 1),
       (''model'', PStr ''Ernie''),
       (''usage'', PDict [
          (''prompt_tokens'', PInt 1),
          (''completion_tokens'', PInt 1),
          (''total_tokens'', PInt 1)]),
       (''choices'', PList [
          PDict [
            (''message'', PDict [
               (''role'', PStr ''assistant''),
               (''content'', get_result response)]),
            (''finish_reason'', PStr ''stop''),
            (''index'', PInt 0)]])]"

text \<open>Reading a dictionary entry, \<^verbatim>\<open>d[k]\<close>; \<open>None\<close> where Python raises.\<close>

fun py_get :: "string \<Rightarrow> pyval \<Rightarrow> pyval option" where
  "py_get k (PDict d) = map_of d k"
| "py_get k v = None"

section \<open>StubModel\<close>

text \<open>\<^verbatim>\<open>StubModel.run\<close> ignores its positional and keyword arguments.\<close>

definition StubModel_run :: "'a \<Rightarrow> 'b \<Rightarrow> pyval" where
  "StubModel_run args kwargs =
     (let ARBITRARY_STRING = ''Lorem Ipsum'' in
      PDict [
        (''id'', PStr ''stub_model_id''),
        (''usage'', PDict []),
        (''choices'', PList [
           PDict [
             (''finish_reason'', PStr ''stop''),
             (''message'', PDict [
                (''content'', PStr ARBITRARY_STRING),
                (''role'', PStr ''assistant'')])]])])"

section \<open>Model types, backends and the factory\<close>

text \<open>
  The enumeration \<^verbatim>\<open>ModelType\<close> is imported from \<^verbatim>\<open>camel.typing\<close>; this module names
  the members below. \<open>OtherModelType\<close> stands for any other value a caller passes as
  \<^verbatim>\<open>model_type\<close> (Python does not enforce the annotation). The strings behind
  \<^verbatim>\<open>model_type.value\<close> are declared outside this module and are a parameter of the
  model (\<open>ModelType_value\<close> below).
\<close>

datatype ModelType =
    GPT_3_5_TURBO
  | GPT_3_5_TURBO_NEW
  | GPT_4
  | GPT_4_32k
  | GPT_4_TURBO
  | GPT_4_TURBO_V
  | Ernie
  | STUB
  | OtherModelType string

text \<open>The instance attributes set by \<^verbatim>\<open>__init__\<close> of OpenAIModel and ErnieModel.\<close>

record backend_self =
  model_type :: ModelType
  model_config_dict :: pydict

datatype ModelBackend =
    OpenAIModel backend_self
  | ErnieModel backend_self
  | StubModel

datatype model_class = OpenAIModel_class | ErnieModel_class | StubModel_class

text \<open>\<^verbatim>\<open>model_class(model_type, model_config_dict)\<close>: StubModel's constructor drops both.\<close>

definition instantiate :: "model_class \<Rightarrow> ModelType \<Rightarrow> pydict \<Rightarrow> ModelBackend" where
  "instantiate cls mtype config =
     (case cls of
        OpenAIModel_class \<Rightarrow> OpenAIModel \<lparr>model_type = mtype, model_config_dict = config\<rparr>
      | ErnieModel_class \<Rightarrow> ErnieModel \<lparr>model_type = mtype, model_config_dict = config\<rparr>
      | StubModel_class \<Rightarrow> StubModel)"

text \<open>\<^verbatim>\<open>ModelFactory.create\<close>; \<open>None\<close> is Python's \<^verbatim>\<open>None\<close>.\<close>

definition ModelFactory_create :: "ModelType option \<Rightarrow> pydict \<Rightarrow> error + ModelBackend" where
  "ModelFactory_create mtype config =
     (let default_model_type = GPT_3_5_TURBO in
      case (if mtype \<in> {Some GPT_3_5_TURBO, Some GPT_3_5_TURBO_NEW, Some GPT_4,
                          Some GPT_4_32k, Some GPT_4_TURBO, Some GPT_4_TURBO_V, None}
            then Inr OpenAIModel_class
            else if mtype = Some Ernie then Inr ErnieModel_class
            else if mtype = Some STUB then Inr StubModel_class
            else Inl (ValueError ''Unknown model'')) of
        Inl e \<Rightarrow> Inl e
      | Inr cls \<Rightarrow>
          Inr (instantiate cls
                 (case mtype of None \<Rightarrow> default_model_type | Some t \<Rightarrow> t) config))"

section \<open>OpenAIModel.run\<close>

text \<open>
  What \<^verbatim>\<open>OpenAIModel.run\<close> takes from outside the module:
  \<^item> \<open>openai_new_api\<close>: the module-level flag read from the process environment;
  \<^item> \<open>ModelType_value\<close>: the string \<^verbatim>\<open>model_type.value\<close>;
  \<^item> \<open>encoding_for_model\<close>: \<^verbatim>\<open>tiktoken.encoding_for_model\<close>, giving the encoder
    (\<^verbatim>\<open>encoding.encode\<close>) or raising; the encoder gives the token list or raises;
  \<^item> \<open>vendor_create\<close>: the vendor call (\<^verbatim>\<open>client.chat.completions.create\<close> or
    \<^verbatim>\<open>openai.ChatCompletion.create\<close>), giving a response or raising;
  \<^item> \<open>usage_report\<close>: reading the usage counts of the response, \<^verbatim>\<open>prompt_cost\<close> and
    \<^verbatim>\<open>log_visualize\<close>; it gives no value, and may raise;
  \<^item> \<open>isinstance_expected\<close>: the \<^verbatim>\<open>isinstance\<close> test on the response.
\<close>

record request =
  call_args :: "pyval list"
  call_messages :: "message list"
  call_kwargs :: pydict

record 'r outcome =
  returned :: "error + 'r"
  self_after :: backend_self
  vendor_calls :: "request list"

record 'r env =
  openai_new_api :: bool
  ModelType_value :: "ModelType \<Rightarrow> string"
  encoding_for_model :: "string \<Rightarrow> error + (string \<Rightarrow> error + int list)"
  vendor_create :: "request \<Rightarrow> error + 'r"
  usage_report :: "string \<Rightarrow> 'r \<Rightarrow> error option"
  isinstance_expected :: "'r \<Rightarrow> bool"

text \<open>
  Lines 80 to 84: the estimate of the prompt's tokens. \<open>messages\<close> is
  \<^verbatim>\<open>kwargs["messages"]\<close>.
\<close>

definition num_prompt_tokens_of ::
  "(string \<Rightarrow> error + int list) \<Rightarrow> message list \<Rightarrow> error + int" where
  "num_prompt_tokens_of encode messages =
     (let string = join [CHR 0x0A] (map content messages) in
      case encode string of
        Inl e \<Rightarrow> Inl e
      | Inr tokens \<Rightarrow>
          (let num_prompt_tokens = int (length tokens);
               gap_between_send_receive = 15 * int (length messages)
           in Inr (num_prompt_tokens + gap_between_send_receive)))"

definition estimate_prompt_tokens ::
  "'r env \<Rightarrow> backend_self \<Rightarrow> message list \<Rightarrow> error + int" where
  "estimate_prompt_tokens env self messages =
     (case encoding_for_model env (ModelType_value env (model_type self)) of
        Inl e \<Rightarrow> Inl e
      | Inr encode \<Rightarrow> num_prompt_tokens_of encode messages)"

text \<open>The two literal tables, for the new and the old client interface.\<close>

definition num_max_token_map :: "bool \<Rightarrow> (string \<times> int) list" where
  "num_max_token_map new_api =
     (if new_api
      then [(''gpt-3.5-turbo'', 4096),
            (''gpt-3.5-turbo-16k'', 16384),
            (''gpt-3.5-turbo-0613'', 4096),
            (''gpt-3.5-turbo-16k-0613'', 16384),
            (''gpt-4'', 8192),
            (''gpt-4-0613'', 8192),
            (''gpt-4-32k'', 32768),
            (''gpt-4-1106-preview'', 4096),
            (''gpt-4-1106-vision-preview'', 4096)]
      else [(''gpt-3.5-turbo'', 4096),
            (''gpt-3.5-turbo-16k'', 16384),
            (''gpt-3.5-turbo-0613'', 4096),
            (''gpt-3.5-turbo-16k-0613'', 16384),
            (''gpt-4'', 8192),
            (''gpt-4-0613'', 8192),
            (''gpt-4-32k'', 32768)])"

text \<open>\<^verbatim>\<open>num_max_token_map[self.model_type.value]\<close>: a missing key raises KeyError.\<close>

definition num_max_token :: "bool \<Rightarrow> string \<Rightarrow> error + int" where
  "num_max_token new_api name =
     (case map_of (num_max_token_map new_api) name of
        None \<Rightarrow> Inl (KeyError name)
      | Some n \<Rightarrow> Inr n)"

text \<open>
  The keyword arguments of the vendor call,
  \<^verbatim>\<open>create(*args, **kwargs, model=self.model_type.value, **self.model_config_dict)\<close>.
  \<open>kwargs\<close> holds the keyword arguments of \<^verbatim>\<open>run\<close> other than \<^verbatim>\<open>messages\<close>. Python
  raises TypeError when a keyword is given twice.
\<close>

definition keyword_arguments :: "pydict \<Rightarrow> string \<Rightarrow> pydict \<Rightarrow> error + pydict" where
  "keyword_arguments kwargs name config =
     (if (\<exists>k \<in> set (''messages'' # map fst kwargs). k = ''model'' \<or> k \<in> fst ` set config)
         \<or> ''model'' \<in> fst ` set config
      then Inl (TypeError ''got multiple values for keyword argument'')
      else Inr (kwargs @ [(''model'', PStr name)] @ config))"

text \<open>
  \<^verbatim>\<open>OpenAIModel.run\<close>. The outcome is what the call returns or raises, the instance after
  the call, and the requests sent to the vendor during the call. Both branches of
  \<^verbatim>\<open>if openai_new_api\<close> do the same steps; they differ in the table, the client and
  the type tested at the end. Building the client and printing take no part in the
  outcome and are left out.
\<close>

definition OpenAIModel_run ::
  "'r env \<Rightarrow> backend_self \<Rightarrow> pyval list \<Rightarrow> message list \<Rightarrow> pydict \<Rightarrow> 'r outcome" where
  "OpenAIModel_run env self args messages kwargs =
     (let name = ModelType_value env (model_type self) in
      case estimate_prompt_tokens env self messages of
        Inl e \<Rightarrow> \<lparr>returned = Inl e, self_after = self, vendor_calls = []\<rparr>
      | Inr num_prompt_tokens \<Rightarrow>
          (case num_max_token (openai_new_api env) name of
             Inl e \<Rightarrow> \<lparr>returned = Inl e, self_after = self, vendor_calls = []\<rparr>
           | Inr num_max \<Rightarrow>
               (let num_max_completion_tokens = num_max - num_prompt_tokens;
                    self' = self\<lparr>model_config_dict :=
                              AList.update ''max_tokens'' (PInt num_max_completion_tokens)
                                (model_config_dict self)\<rparr>
                in case keyword_arguments kwargs name (model_config_dict self') of
                     Inl e \<Rightarrow> \<lparr>returned = Inl e, self_after = self', vendor_calls = []\<rparr>
                   | Inr kw \<Rightarrow>
                       (let req = \<lparr>call_args = args, call_messages = messages,
                                   call_kwargs = kw\<rparr>
                        in case vendor_create env req of
                             Inl e \<Rightarrow>
                               \<lparr>returned = Inl e, self_after = self', vendor_calls = [req]\<rparr>
                           | Inr response \<Rightarrow>
                               (case usage_report env name response of
                                  Some e \<Rightarrow>
                                    \<lparr>returned = Inl e, self_after = self',
                                     vendor_calls = [req]\<rparr>
                                | None \<Rightarrow>
                                    if \<not> isinstance_expected env response
                                    then \<lparr>returned =
                                            Inl (RuntimeError ''Unexpected return from OpenAI API''),
                                          self_after = self', vendor_calls = [req]\<rparr>
                                    else \<lparr>returned = Inr response, self_after = self',
                                          vendor_calls = [req]\<rparr>)))))"

section \<open>An environment for concrete runs\<close>

text \<open>
  The concrete runs below fix one environment: the old client interface; for
  \<^verbatim>\<open>model_type.value\<close> an assignment that gives every GPT member a key of the
  new-interface table, and "Ernie" and "stub" to the other two members (the
  enumeration's own strings are declared outside this module, so the assignment is an
  assumption of these runs only); a tokenizer that gives one token per character; a
  vendor that answers with the stub's response; a usage report that does not raise. The
  general theorems hold for every environment.
\<close>

definition example_value :: "ModelType \<Rightarrow> string" where
  "example_value t =
     (case t of
        GPT_3_5_TURBO \<Rightarrow> ''gpt-3.5-turbo-16k-0613''
      | GPT_3_5_TURBO_NEW \<Rightarrow> ''gpt-3.5-turbo-16k''
      | GPT_4 \<Rightarrow> ''gpt-4''
      | GPT_4_32k \<Rightarrow> ''gpt-4-32k''
      | GPT_4_TURBO \<Rightarrow> ''gpt-4-1106-preview''
      | GPT_4_TURBO_V \<Rightarrow> ''gpt-4-1106-vision-preview''
      | Ernie \<Rightarrow> ''Ernie''
      | STUB \<Rightarrow> ''stub''
      | OtherModelType s \<Rightarrow> s)"

definition example_env :: "pyval env" where
  "example_env =
     \<lparr>openai_new_api = False,
      ModelType_value = example_value,
      encoding_for_model = (\<lambda>name. Inr (\<lambda>s. Inr (map (\<lambda>c. int (of_char c)) s))),
      vendor_create = (\<lambda>req. Inr (StubModel_run (call_args req) (call_kwargs req))),
      usage_report = (\<lambda>name response. None),
      isinstance_expected = (\<lambda>response. case response of PDict d \<Rightarrow> True | _ \<Rightarrow> False)\<rparr>"

definition example_self :: "ModelType \<Rightarrow> backend_self" where
  "example_self t =
     \<lparr>model_type = t,
      model_config_dict = [(''temperature'', PInt 1), (''max_tokens'', PInt 100)]\<rparr>"

section \<open>Substring test\<close>

lemma startswith_iff: "startswith s p \<longleftrightarrow> (\<exists>q. s = p @ q)"
  by (induction s p rule: startswith.induct) auto

lemma py_in_iff: "py_in sub s \<longleftrightarrow> (\<exists>p q. s = p @ sub @ q)"
proof (induction s)
  case Nil
  show ?case by auto
next
  case (Cons c cs)
  have "(\<exists>p q. c # cs = p @ sub @ q)
          \<longleftrightarrow> (\<exists>q. c # cs = sub @ q) \<or> (\<exists>p q. cs = p @ sub @ q)"
  proof
    assume "\<exists>p q. c # cs = p @ sub @ q"
    then obtain p q where pq: "c # cs = p @ sub @ q" by blast
    show "(\<exists>q. c # cs = sub @ q) \<or> (\<exists>p q. cs = p @ sub @ q)"
    proof (cases p)
      case Nil
      with pq show ?thesis by auto
    next
      case (Cons a p')
      with pq have "cs = p' @ sub @ q" by simp
      then show ?thesis by blast
    qed
  next
    assume "(\<exists>q. c # cs = sub @ q) \<or> (\<exists>p q. cs = p @ sub @ q)"
    then show "\<exists>p q. c # cs = p @ sub @ q"
    proof
      assume "\<exists>q. c # cs = sub @ q"
      then obtain q where "c # cs = [] @ sub @ q" by auto
      then show ?thesis by blast
    next
      assume "\<exists>p q. cs = p @ sub @ q"
      then obtain p q where "c # cs = (c # p) @ sub @ q" by auto
      then show ?thesis by blast
    qed
  qed
  with Cons.IH show ?case by (simp add: startswith_iff)
qed

section \<open>The loop, without its accumulator\<close>

lemma reformat_loop_acc:
  "reformat_loop flag acc ms = acc @ reformat_loop flag [] ms"
proof (induction ms arbitrary: flag acc)
  case Nil
  show ?case by simp
next
  case (Cons m ms)
  show ?case
  proof (cases "py_in ''ass'' (role m)")
    case True
    then show ?thesis
      using Cons.IH [of False "acc @ [\<lparr>role = ''assistant'', content = content m\<rparr>]"]
            Cons.IH [of False "[\<lparr>role = ''assistant'', content = content m\<rparr>]"]
      by simp
  next
    case False
    then show ?thesis
      using Cons.IH [of True "(if flag then acc @ [\<lparr>role = ''assistant'', content = ''Got it.''\<rparr>] else acc) @ [\<lparr>role = ''user'', content = content m\<rparr>]"]
            Cons.IH [of True "(if flag then [\<lparr>role = ''assistant'', content = ''Got it.''\<rparr>] else []) @ [\<lparr>role = ''user'', content = content m\<rparr>]"]
      by (cases flag) simp_all
  qed
qed

lemma reformat_loop_Cons_acc:
  "reformat_loop flag (a # acc) ms = a # acc @ reformat_loop flag [] ms"
  using reformat_loop_acc [of flag "a # acc" ms] by simp

lemma reformat_loop_Cons:
  "reformat_loop flag [] (m # ms) =
     (if py_in ''ass'' (role m)
      then \<lparr>role = ''assistant'', content = content m\<rparr> # reformat_loop False [] ms
      else (if flag then [\<lparr>role = ''assistant'', content = ''Got it.''\<rparr>] else [])
           @ \<lparr>role = ''user'', content = content m\<rparr> # reformat_loop True [] ms)"
  by (simp add: reformat_loop_Cons_acc)

lemma consecutive_user_turns_Cons:
  "consecutive_user_turns (a # ms) =
     ((role a = ''user'' \<and> starts_with_role ''user'' ms) \<or> consecutive_user_turns ms)"
  by (cases ms) (simp_all add: starts_with_role_def)

lemma reformat_loop_turns:
  "\<not> consecutive_user_turns (reformat_loop flag [] ms)
   \<and> (flag \<longrightarrow> \<not> starts_with_role ''user'' (reformat_loop flag [] ms))"
proof (induction ms arbitrary: flag)
  case Nil
  show ?case by (simp add: starts_with_role_def)
next
  case (Cons m ms)
  show ?case
    using Cons.IH [of True] Cons.IH [of False]
    by (simp add: reformat_loop_Cons consecutive_user_turns_Cons starts_with_role_def
             del: reformat_loop.simps)
qed

lemma reformat_loop_turnwise:
  "\<exists>gaps. length gaps = length ms
     \<and> reformat_loop flag [] ms
         = concat (map (\<lambda>(gap, m).
                     (if gap then [\<lparr>role = ''assistant'', content = ''Got it.''\<rparr>] else [])
                     @ [ernie_turn m]) (zip gaps ms))"
proof (induction ms arbitrary: flag)
  case Nil
  show ?case by simp
next
  case (Cons m ms)
  let ?flag' = "\<not> py_in ''ass'' (role m)"
  obtain gaps where g: "length gaps = length ms"
    "reformat_loop ?flag' [] ms
       = concat (map (\<lambda>(gap, m).
                     (if gap then [\<lparr>role = ''assistant'', content = ''Got it.''\<rparr>] else [])
                     @ [ernie_turn m]) (zip gaps ms))"
    using Cons.IH [of ?flag'] by blast
  let ?gaps = "(?flag' \<and> flag) # gaps"
  have "length ?gaps = length (m # ms)" using g(1) by simp
  moreover have "reformat_loop flag [] (m # ms)
         = concat (map (\<lambda>(gap, m).
                     (if gap then [\<lparr>role = ''assistant'', content = ''Got it.''\<rparr>] else [])
                     @ [ernie_turn m]) (zip ?gaps (m # ms)))"
    using g(2)
    by (cases "py_in ''ass'' (role m)")
       (simp_all add: reformat_loop_Cons ernie_turn_def del: reformat_loop.simps)
  ultimately show ?case by blast
qed

section \<open>The converter's output\<close>

text \<open>
  C6. Two user messages in a row, "Hi" and "How are you?", are converted to the user
  turn "Hi", an assistant turn with the fixed content "Got it.", and the user turn
  "How are you?".
\<close>

theorem reformat_two_user_messages:
  "messages_reformat_as_ernie
     [\<lparr>role = ''user'', content = ''Hi''\<rparr>, \<lparr>role = ''user'', content = ''How are you?''\<rparr>]
   = [\<lparr>role = ''user'', content = ''Hi''\<rparr>,
      \<lparr>role = ''assistant'', content = ''Got it.''\<rparr>,
      \<lparr>role = ''user'', content = ''How are you?''\<rparr>]"
  by (simp add: messages_reformat_as_ernie_def)

text \<open>
  C9. The converter emits every message once, in order, as the turn \<open>ernie_turn\<close> gives
  for it, and nothing else but "Got it." fillers, each directly before a message's turn.
  The emitted turn is an assistant turn exactly when the role contains "ass" as a
  contiguous substring, a user turn otherwise, and keeps the content; so a "passenger"
  message becomes an assistant turn and a "system" message a user turn.
\<close>

theorem reformat_classifies_by_ass:
  "(\<exists>gaps. length gaps = length messages
      \<and> messages_reformat_as_ernie messages
          = concat (map (\<lambda>(gap, m).
                      (if gap then [\<lparr>role = ''assistant'', content = ''Got it.''\<rparr>] else [])
                      @ [ernie_turn m]) (zip gaps messages)))
   \<and> (role (ernie_turn m) = ''assistant'' \<longleftrightarrow> (\<exists>p q. role m = p @ ''ass'' @ q))
   \<and> (role (ernie_turn m) = ''user'' \<longleftrightarrow> \<not> (\<exists>p q. role m = p @ ''ass'' @ q))
   \<and> content (ernie_turn m) = content m
   \<and> ernie_turn \<lparr>role = ''passenger'', content = c\<rparr> = \<lparr>role = ''assistant'', content = c\<rparr>
   \<and> ernie_turn \<lparr>role = ''system'', content = c\<rparr> = \<lparr>role = ''user'', content = c\<rparr>"
proof -
  have "\<exists>gaps. length gaps = length messages
      \<and> messages_reformat_as_ernie messages
          = concat (map (\<lambda>(gap, m).
                      (if gap then [\<lparr>role = ''assistant'', content = ''Got it.''\<rparr>] else [])
                      @ [ernie_turn m]) (zip gaps messages))"
    using reformat_loop_turnwise [of messages False]
    by (simp add: messages_reformat_as_ernie_def)
  moreover have "role (ernie_turn m) = ''assistant'' \<longleftrightarrow> (\<exists>p q. role m = p @ ''ass'' @ q)"
    by (simp add: ernie_turn_def py_in_iff)
  moreover have "role (ernie_turn m) = ''user'' \<longleftrightarrow> \<not> (\<exists>p q. role m = p @ ''ass'' @ q)"
    by (simp add: ernie_turn_def py_in_iff)
  moreover have "content (ernie_turn m) = content m"
    by (simp add: ernie_turn_def)
  moreover have "ernie_turn \<lparr>role = ''passenger'', content = c\<rparr>
                   = \<lparr>role = ''assistant'', content = c\<rparr>"
    by (simp add: ernie_turn_def)
  moreover have "ernie_turn \<lparr>role = ''system'', content = c\<rparr> = \<lparr>role = ''user'', content = c\<rparr>"
    by (simp add: ernie_turn_def)
  ultimately show ?thesis by blast
qed

text \<open>
  C1, as the code has it. The output never contains two consecutive user turns, and it
  starts with an assistant turn exactly when the first input message has a role
  containing "ass"; an empty input and an input that starts with a user or system
  message give an output that does not start with an assistant turn.
\<close>

theorem reformat_turn_order:
  "\<not> consecutive_user_turns (messages_reformat_as_ernie messages)
   \<and> (starts_with_role ''assistant'' (messages_reformat_as_ernie messages)
        \<longleftrightarrow> (case messages of [] \<Rightarrow> False | m # _ \<Rightarrow> py_in ''ass'' (role m)))"
proof -
  have "\<not> consecutive_user_turns (messages_reformat_as_ernie messages)"
    using reformat_loop_turns [of False messages]
    by (simp add: messages_reformat_as_ernie_def)
  moreover have "starts_with_role ''assistant'' (messages_reformat_as_ernie messages)
        \<longleftrightarrow> (case messages of [] \<Rightarrow> False | m # _ \<Rightarrow> py_in ''ass'' (role m))"
  proof (cases messages)
    case Nil
    then show ?thesis
      by (simp add: messages_reformat_as_ernie_def starts_with_role_def)
  next
    case (Cons m ms)
    then show ?thesis
      by (simp add: messages_reformat_as_ernie_def reformat_loop_Cons starts_with_role_def
               del: reformat_loop.simps)
  qed
  ultimately show ?thesis by simp
qed

text \<open>
  C1 as stated fails: a conversation that starts with an assistant message is converted
  to one that starts with an assistant turn.
\<close>

theorem reformat_leading_assistant:
  "\<not> (\<not> consecutive_user_turns
            (messages_reformat_as_ernie [\<lparr>role = ''assistant'', content = ''Hello''\<rparr>])
       \<and> \<not> starts_with_role ''assistant''
            (messages_reformat_as_ernie [\<lparr>role = ''assistant'', content = ''Hello''\<rparr>]))"
  by (simp add: messages_reformat_as_ernie_def starts_with_role_def)

section \<open>The converted response\<close>

text \<open>
  C7. For every provider response, \<^verbatim>\<open>result_format_as_openai\<close> builds a response with
  exactly one choice; the content of its message is \<^verbatim>\<open>response.get_result()\<close>, its
  finish_reason is "stop", and the three usage counts are the fixed placeholder 1,
  whatever the provider reported.
\<close>

theorem result_format_as_openai_shape:
  "\<exists>choice msg.
     py_get ''choices'' (result_format_as_openai get_result response) = Some (PList [choice])
     \<and> py_get ''message'' choice = Some msg
     \<and> py_get ''content'' msg = Some (get_result response)
     \<and> py_get ''finish_reason'' choice = Some (PStr ''stop'')
     \<and> py_get ''usage'' (result_format_as_openai get_result response)
         = Some (PDict [(''prompt_tokens'', PInt 1), (''completion_tokens'', PInt 1),
                        (''total_tokens'', PInt 1)])"
  by (simp add: result_format_as_openai_def)

section \<open>The stub\<close>

text \<open>
  C8. Whatever its arguments, \<^verbatim>\<open>StubModel.run\<close> returns a response with exactly one
  choice, whose finish_reason is "stop" and whose message content is "Lorem Ipsum".
\<close>

theorem StubModel_run_shape:
  "\<exists>choice msg.
     py_get ''choices'' (StubModel_run args kwargs) = Some (PList [choice])
     \<and> py_get ''finish_reason'' choice = Some (PStr ''stop'')
     \<and> py_get ''message'' choice = Some msg
     \<and> py_get ''content'' msg = Some (PStr ''Lorem Ipsum'')"
  by (simp add: StubModel_run_def)

section \<open>The factory\<close>

text \<open>
  C4. \<^verbatim>\<open>ModelFactory.create\<close> gives an OpenAIModel for each of the six GPT members, an
  ErnieModel for Ernie and a StubModel for STUB; for \<^verbatim>\<open>None\<close> it gives an OpenAIModel
  of the default member GPT_3_5_TURBO; for every other value it raises
  \<^verbatim>\<open>ValueError("Unknown model")\<close> (the module's form of UnsupportedModelError).
\<close>

theorem ModelFactory_create_cases:
  "ModelFactory_create (Some GPT_3_5_TURBO) config
     = Inr (OpenAIModel \<lparr>model_type = GPT_3_5_TURBO, model_config_dict = config\<rparr>)
   \<and> ModelFactory_create (Some GPT_3_5_TURBO_NEW) config
     = Inr (OpenAIModel \<lparr>model_type = GPT_3_5_TURBO_NEW, model_config_dict = config\<rparr>)
   \<and> ModelFactory_create (Some GPT_4) config
     = Inr (OpenAIModel \<lparr>model_type = GPT_4, model_config_dict = config\<rparr>)
   \<and> ModelFactory_create (Some GPT_4_32k) config
     = Inr (OpenAIModel \<lparr>model_type = GPT_4_32k, model_config_dict = config\<rparr>)
   \<and> ModelFactory_create (Some GPT_4_TURBO) config
     = Inr (OpenAIModel \<lparr>model_type = GPT_4_TURBO, model_config_dict = config\<rparr>)
   \<and> ModelFactory_create (Some GPT_4_TURBO_V) config
     = Inr (OpenAIModel \<lparr>model_type = GPT_4_TURBO_V, model_config_dict = config\<rparr>)
   \<and> ModelFactory_create (Some Ernie) config
     = Inr (ErnieModel \<lparr>model_type = Ernie, model_config_dict = config\<rparr>)
   \<and> ModelFactory_create (Some STUB) config = Inr StubModel
   \<and> ModelFactory_create None config
     = Inr (OpenAIModel \<lparr>model_type = GPT_3_5_TURBO, model_config_dict = config\<rparr>)
   \<and> (mtype \<notin> {GPT_3_5_TURBO, GPT_3_5_TURBO_NEW, GPT_4, GPT_4_32k, GPT_4_TURBO,
                   GPT_4_TURBO_V, Ernie, STUB}
        \<longrightarrow> ModelFactory_create (Some mtype) config = Inl (ValueError ''Unknown model''))"
  by (simp add: ModelFactory_create_def instantiate_def)

theorem ModelFactory_create_cases_witness:
  "OtherModelType ''gpt-5'' \<notin> {GPT_3_5_TURBO, GPT_3_5_TURBO_NEW, GPT_4, GPT_4_32k,
                                 GPT_4_TURBO, GPT_4_TURBO_V, Ernie, STUB}
   \<and> ModelFactory_create (Some (OtherModelType ''gpt-5'')) [(''temperature'', PInt 1)]
       = Inl (ValueError ''Unknown model'')"
  using ModelFactory_create_cases [of "[(''temperature'', PInt 1)]" "OtherModelType ''gpt-5''"]
  by simp

section \<open>The token-window table\<close>

text \<open>
  C3. In either table, looking up an identifier that is a key gives a positive integer;
  looking up any other identifier raises KeyError (the module's form of the
  specification's UnknownModelError) for that identifier.
\<close>

theorem num_max_token_lookup:
  "(name \<in> fst ` set (num_max_token_map new_api)
      \<longrightarrow> (\<exists>n. num_max_token new_api name = Inr n \<and> 0 < n))
   \<and> (name \<notin> fst ` set (num_max_token_map new_api)
      \<longrightarrow> num_max_token new_api name = Inl (KeyError name))"
proof (cases new_api)
  case True
  then show ?thesis
    by (auto simp add: num_max_token_def num_max_token_map_def)
next
  case False
  then show ?thesis
    by (auto simp add: num_max_token_def num_max_token_map_def)
qed

theorem num_max_token_lookup_witness:
  "''gpt-4'' \<in> fst ` set (num_max_token_map False)
   \<and> num_max_token False ''gpt-4'' = Inr 8192
   \<and> ''gpt-4-1106-preview'' \<notin> fst ` set (num_max_token_map False)
   \<and> num_max_token False ''gpt-4-1106-preview'' = Inl (KeyError ''gpt-4-1106-preview'')"
  using num_max_token_lookup [of "''gpt-4''" False]
        num_max_token_lookup [of "''gpt-4-1106-preview''" False]
  by (simp add: num_max_token_def num_max_token_map_def)

section \<open>OpenAIModel.run: the completion budget\<close>

lemma keyword_arguments_max_tokens:
  assumes "keyword_arguments kwargs name (AList.update ''max_tokens'' v config) = Inr kw"
  shows "map_of kw ''max_tokens'' = Some v"
proof -
  let ?config = "AList.update ''max_tokens'' v config"
  have kw: "kw = kwargs @ [(''model'', PStr name)] @ ?config"
    and free: "''max_tokens'' \<notin> fst ` set kwargs"
    using assms by (auto simp add: keyword_arguments_def dom_update split: if_splits)
  have "map_of kwargs ''max_tokens'' = None"
    using free by (simp add: map_of_eq_None_iff)
  then show ?thesis
    by (simp add: kw map_add_def update_conv')
qed

lemma OpenAIModel_run_self:
  assumes "estimate_prompt_tokens env self messages = Inr p"
    and "num_max_token (openai_new_api env) (ModelType_value env (model_type self)) = Inr n"
  shows "self_after (OpenAIModel_run env self args messages kwargs)
         = self\<lparr>model_config_dict :=
                  AList.update ''max_tokens'' (PInt (n - p)) (model_config_dict self)\<rparr>"
  using assms
  by (simp add: OpenAIModel_run_def Let_def split: sum.splits option.splits)

lemma OpenAIModel_run_calls:
  assumes "req \<in> set (vendor_calls (OpenAIModel_run env self args messages kwargs))"
  shows "\<exists>n p kw.
           num_max_token (openai_new_api env) (ModelType_value env (model_type self)) = Inr n
           \<and> estimate_prompt_tokens env self messages = Inr p
           \<and> keyword_arguments kwargs (ModelType_value env (model_type self))
                 (AList.update ''max_tokens'' (PInt (n - p)) (model_config_dict self)) = Inr kw
           \<and> req = \<lparr>call_args = args, call_messages = messages, call_kwargs = kw\<rparr>"
  using assms
  by (auto simp add: OpenAIModel_run_def Let_def split: sum.splits option.splits if_splits)

text \<open>
  A call that raises in the token estimate or in the table lookup leaves the instance as
  it was and sends nothing.
\<close>

lemma OpenAIModel_run_raises_early:
  assumes "estimate_prompt_tokens env self messages = Inl e
           \<or> (\<exists>p. estimate_prompt_tokens env self messages = Inr p)
               \<and> num_max_token (openai_new_api env) (ModelType_value env (model_type self))
                   = Inl e"
  shows "OpenAIModel_run env self args messages kwargs
         = \<lparr>returned = Inl e, self_after = self, vendor_calls = []\<rparr>"
  using assms
  by (auto simp add: OpenAIModel_run_def Let_def)

text \<open>
  When the estimate and the table lookup succeed and no keyword is given twice, the
  vendor is called once, with the keyword arguments built from the updated dictionary.
\<close>

lemma OpenAIModel_run_sends:
  assumes "estimate_prompt_tokens env self messages = Inr p"
    and "num_max_token (openai_new_api env) (ModelType_value env (model_type self)) = Inr n"
    and "keyword_arguments kwargs (ModelType_value env (model_type self))
           (AList.update ''max_tokens'' (PInt (n - p)) (model_config_dict self)) = Inr kw"
  shows "vendor_calls (OpenAIModel_run env self args messages kwargs)
         = [\<lparr>call_args = args, call_messages = messages, call_kwargs = kw\<rparr>]"
  using assms
  by (simp add: OpenAIModel_run_def Let_def split: sum.splits option.splits)

lemma example_estimate:
  "estimate_prompt_tokens example_env (example_self t) [\<lparr>role = r, content = c\<rparr>]
     = Inr (int (length c) + 15)"
  by (simp add: estimate_prompt_tokens_def num_prompt_tokens_of_def example_env_def)

text \<open>
  C2, as the code has it. When the token estimate and the table lookup succeed and no
  keyword is given twice, \<^verbatim>\<open>OpenAIModel.run\<close> sends exactly one request to the vendor,
  with the positional arguments and messages of the call, and under \<^verbatim>\<open>max_tokens\<close> the
  table's value for the model minus the estimate of the prompt's tokens, as it is: when
  the estimate reaches or exceeds the table's value, the number passed is zero or
  negative.
\<close>

theorem run_max_tokens_passed:
  assumes "estimate_prompt_tokens env self messages = Inr num_prompt_tokens"
    and "num_max_token (openai_new_api env) (ModelType_value env (model_type self))
           = Inr num_max"
    and "keyword_arguments kwargs (ModelType_value env (model_type self))
           (AList.update ''max_tokens'' (PInt (num_max - num_prompt_tokens))
              (model_config_dict self)) = Inr kw"
  shows "\<exists>req. vendor_calls (OpenAIModel_run env self args messages kwargs) = [req]
           \<and> call_args req = args
           \<and> call_messages req = messages
           \<and> call_kwargs req = kw
           \<and> map_of (call_kwargs req) ''max_tokens''
               = Some (PInt (num_max - num_prompt_tokens))
           \<and> (num_max \<le> num_prompt_tokens
                \<longrightarrow> (\<exists>budget \<le> 0.
                       map_of (call_kwargs req) ''max_tokens'' = Some (PInt budget)))"
proof -
  let ?req = "\<lparr>call_args = args, call_messages = messages, call_kwargs = kw\<rparr>"
  have sent: "vendor_calls (OpenAIModel_run env self args messages kwargs) = [?req]"
    using assms by (rule OpenAIModel_run_sends)
  have passed: "map_of (call_kwargs ?req) ''max_tokens''
                  = Some (PInt (num_max - num_prompt_tokens))"
    using keyword_arguments_max_tokens [OF assms(3)] by simp
  have "\<exists>budget \<le> 0. map_of (call_kwargs ?req) ''max_tokens'' = Some (PInt budget)"
    if "num_max \<le> num_prompt_tokens"
  proof -
    from that have "num_max - num_prompt_tokens \<le> 0" by simp
    with passed show ?thesis by blast
  qed
  with sent passed show ?thesis by simp
qed

lemma example_estimate_two:
  "estimate_prompt_tokens example_env (example_self t)
     [\<lparr>role = r1, content = c1\<rparr>, \<lparr>role = r2, content = c2\<rparr>]
     = Inr (int (length c1) + 1 + int (length c2) + 30)"
  by (simp add: estimate_prompt_tokens_def num_prompt_tokens_of_def example_env_def)

theorem run_max_tokens_passed_witness:
  "estimate_prompt_tokens example_env (example_self GPT_4)
     [\<lparr>role = ''system'', content = ''Hi''\<rparr>,
      \<lparr>role = ''user'', content = replicate 9000 (CHR ''a'')\<rparr>] = Inr 9033
   \<and> num_max_token (openai_new_api example_env)
         (ModelType_value example_env (model_type (example_self GPT_4))) = Inr 8192
   \<and> keyword_arguments [(''stream'', PBool False)]
         (ModelType_value example_env (model_type (example_self GPT_4)))
         (AList.update ''max_tokens'' (PInt (8192 - 9033))
            (model_config_dict (example_self GPT_4)))
       = Inr [(''stream'', PBool False), (''model'', PStr ''gpt-4''),
              (''temperature'', PInt 1), (''max_tokens'', PInt (- 841))]
   \<and> vendor_calls (OpenAIModel_run example_env (example_self GPT_4) []
         [\<lparr>role = ''system'', content = ''Hi''\<rparr>,
          \<lparr>role = ''user'', content = replicate 9000 (CHR ''a'')\<rparr>]
         [(''stream'', PBool False)])
       = [\<lparr>call_args = [],
           call_messages = [\<lparr>role = ''system'', content = ''Hi''\<rparr>,
                            \<lparr>role = ''user'', content = replicate 9000 (CHR ''a'')\<rparr>],
           call_kwargs = [(''stream'', PBool False), (''model'', PStr ''gpt-4''),
                          (''temperature'', PInt 1), (''max_tokens'', PInt (- 841))]\<rparr>]
   \<and> (8192 :: int) \<le> 9033"
proof -
  let ?messages = "[\<lparr>role = ''system'', content = ''Hi''\<rparr>,
                    \<lparr>role = ''user'', content = replicate 9000 (CHR ''a'')\<rparr>]"
  let ?kw = "[(''stream'', PBool False), (''model'', PStr ''gpt-4''),
              (''temperature'', PInt 1), (''max_tokens'', PInt (- 841))]"
  have p: "estimate_prompt_tokens example_env (example_self GPT_4) ?messages = Inr 9033"
    by (simp add: example_estimate_two)
  have n: "num_max_token (openai_new_api example_env)
         (ModelType_value example_env (model_type (example_self GPT_4))) = Inr 8192"
    by (simp add: example_env_def example_self_def example_value_def num_max_token_def
                  num_max_token_map_def)
  have kw: "keyword_arguments [(''stream'', PBool False)]
         (ModelType_value example_env (model_type (example_self GPT_4)))
         (AList.update ''max_tokens'' (PInt (8192 - 9033))
            (model_config_dict (example_self GPT_4))) = Inr ?kw"
    by (simp add: keyword_arguments_def example_env_def example_self_def example_value_def)
  obtain req where
    "vendor_calls (OpenAIModel_run example_env (example_self GPT_4) [] ?messages
        [(''stream'', PBool False)]) = [req]"
    "call_args req = []" "call_messages req = ?messages" "call_kwargs req = ?kw"
    using run_max_tokens_passed [OF p n kw, of "[]"] by blast
  then have "vendor_calls (OpenAIModel_run example_env (example_self GPT_4) [] ?messages
        [(''stream'', PBool False)])
      = [\<lparr>call_args = [], call_messages = ?messages, call_kwargs = ?kw\<rparr>]"
    by simp
  with p n kw show ?thesis by simp
qed

text \<open>
  C2 as stated fails: a call that gives \<^verbatim>\<open>max_tokens\<close> as a keyword of \<^verbatim>\<open>run\<close> gets
  past the estimate and the lookup, the keyword is then given twice in the vendor call,
  Python raises TypeError, and no request with any \<^verbatim>\<open>max_tokens\<close> reaches the vendor.
\<close>

theorem run_duplicate_max_tokens_sends_nothing:
  "estimate_prompt_tokens example_env (example_self GPT_4)
     [\<lparr>role = ''user'', content = ''Hi''\<rparr>] = Inr 17
   \<and> num_max_token (openai_new_api example_env)
         (ModelType_value example_env (model_type (example_self GPT_4))) = Inr 8192
   \<and> returned (OpenAIModel_run example_env (example_self GPT_4) []
         [\<lparr>role = ''user'', content = ''Hi''\<rparr>] [(''max_tokens'', PInt 5)])
       = Inl (TypeError ''got multiple values for keyword argument'')
   \<and> vendor_calls (OpenAIModel_run example_env (example_self GPT_4) []
         [\<lparr>role = ''user'', content = ''Hi''\<rparr>] [(''max_tokens'', PInt 5)]) = []"
proof -
  have p: "estimate_prompt_tokens example_env (example_self GPT_4)
             [\<lparr>role = ''user'', content = ''Hi''\<rparr>] = Inr 17"
    by (simp add: example_estimate)
  have n: "num_max_token (openai_new_api example_env)
         (ModelType_value example_env (model_type (example_self GPT_4))) = Inr 8192"
    by (simp add: example_env_def example_self_def example_value_def num_max_token_def
                  num_max_token_map_def)
  have kw: "keyword_arguments [(''max_tokens'', PInt 5)]
         (ModelType_value example_env (model_type (example_self GPT_4)))
         (AList.update ''max_tokens'' (PInt (8192 - 17))
            (model_config_dict (example_self GPT_4)))
       = Inl (TypeError ''got multiple values for keyword argument'')"
    by (simp add: keyword_arguments_def example_self_def)
  show ?thesis
    using n p kw by (simp add: OpenAIModel_run_def Let_def)
qed

text \<open>
  C10, as the code has it. When the token estimate and the table lookup succeed, the
  call leaves the instance with \<^verbatim>\<open>max_tokens\<close> set to the computed budget, whatever
  was stored under that key before, and with every other key and the model type as they
  were; a request sent to the vendor carries the updated dictionary.
\<close>

theorem run_overwrites_max_tokens:
  assumes "estimate_prompt_tokens env self messages = Inr num_prompt_tokens"
    and "num_max_token (openai_new_api env) (ModelType_value env (model_type self))
           = Inr num_max"
  shows "map_of (model_config_dict (self_after (OpenAIModel_run env self args messages kwargs)))
           = (map_of (model_config_dict self))
               (''max_tokens'' \<mapsto> PInt (num_max - num_prompt_tokens))
         \<and> model_type (self_after (OpenAIModel_run env self args messages kwargs))
             = model_type self
         \<and> (\<forall>req \<in> set (vendor_calls (OpenAIModel_run env self args messages kwargs)).
               call_kwargs req
                 = kwargs @ [(''model'', PStr (ModelType_value env (model_type self)))]
                     @ model_config_dict
                         (self_after (OpenAIModel_run env self args messages kwargs)))"
proof -
  let ?run = "OpenAIModel_run env self args messages kwargs"
  let ?config = "AList.update ''max_tokens'' (PInt (num_max - num_prompt_tokens))
                   (model_config_dict self)"
  have after: "self_after ?run = self\<lparr>model_config_dict := ?config\<rparr>"
    using assms by (rule OpenAIModel_run_self)
  have sent: "call_kwargs req
                = kwargs @ [(''model'', PStr (ModelType_value env (model_type self)))] @ ?config"
    if r: "req \<in> set (vendor_calls ?run)" for req
  proof -
    obtain n p kw where
      "num_max_token (openai_new_api env) (ModelType_value env (model_type self)) = Inr n"
      "estimate_prompt_tokens env self messages = Inr p"
      and kw: "keyword_arguments kwargs (ModelType_value env (model_type self))
                 (AList.update ''max_tokens'' (PInt (n - p)) (model_config_dict self)) = Inr kw"
      and req: "req = \<lparr>call_args = args, call_messages = messages, call_kwargs = kw\<rparr>"
      using OpenAIModel_run_calls [OF r] by blast
    with assms have "n = num_max" "p = num_prompt_tokens" by simp_all
    with kw req show ?thesis
      by (simp add: keyword_arguments_def split: if_splits)
  qed
  show ?thesis
    using sent by (simp add: after update_conv')
qed

theorem run_overwrites_max_tokens_witness:
  "estimate_prompt_tokens example_env (example_self GPT_4) [\<lparr>role = ''user'', content = ''Hi''\<rparr>]
     = Inr 17
   \<and> num_max_token (openai_new_api example_env)
         (ModelType_value example_env (model_type (example_self GPT_4))) = Inr 8192
   \<and> model_config_dict (example_self GPT_4)
       = [(''temperature'', PInt 1), (''max_tokens'', PInt 100)]
   \<and> model_config_dict
         (self_after (OpenAIModel_run example_env (example_self GPT_4) []
                      [\<lparr>role = ''user'', content = ''Hi''\<rparr>] []))
       = [(''temperature'', PInt 1), (''max_tokens'', PInt 8175)]
   \<and> map_of (model_config_dict
         (self_after (OpenAIModel_run example_env (example_self GPT_4) []
                      [\<lparr>role = ''user'', content = ''Hi''\<rparr>] [])))
       = (map_of (model_config_dict (example_self GPT_4)))(''max_tokens'' \<mapsto> PInt (8192 - 17))
   \<and> vendor_calls (OpenAIModel_run example_env (example_self GPT_4) []
                      [\<lparr>role = ''user'', content = ''Hi''\<rparr>] [])
       = [\<lparr>call_args = [], call_messages = [\<lparr>role = ''user'', content = ''Hi''\<rparr>],
           call_kwargs = [(''model'', PStr ''gpt-4''), (''temperature'', PInt 1),
                          (''max_tokens'', PInt 8175)]\<rparr>]"
proof -
  have p: "estimate_prompt_tokens example_env (example_self GPT_4)
             [\<lparr>role = ''user'', content = ''Hi''\<rparr>] = Inr 17"
    by (simp add: example_estimate)
  have n: "num_max_token (openai_new_api example_env)
         (ModelType_value example_env (model_type (example_self GPT_4))) = Inr 8192"
    by (simp add: example_env_def example_self_def example_value_def num_max_token_def
                  num_max_token_map_def)
  have kw: "keyword_arguments [] ''gpt-4''
              [(''temperature'', PInt 1), (''max_tokens'', PInt 8175)]
            = Inr [(''model'', PStr ''gpt-4''), (''temperature'', PInt 1),
                   (''max_tokens'', PInt 8175)]"
    by (simp add: keyword_arguments_def)
  have run: "OpenAIModel_run example_env (example_self GPT_4) []
                      [\<lparr>role = ''user'', content = ''Hi''\<rparr>] []
       = \<lparr>returned =
            Inr (StubModel_run ([] :: pyval list)
                   [(''model'', PStr ''gpt-4''), (''temperature'', PInt 1),
                    (''max_tokens'', PInt 8175)]),
          self_after =
            \<lparr>model_type = GPT_4,
             model_config_dict = [(''temperature'', PInt 1), (''max_tokens'', PInt 8175)]\<rparr>,
          vendor_calls =
            [\<lparr>call_args = [], call_messages = [\<lparr>role = ''user'', content = ''Hi''\<rparr>],
              call_kwargs = [(''model'', PStr ''gpt-4''), (''temperature'', PInt 1),
                             (''max_tokens'', PInt 8175)]\<rparr>]\<rparr>"
    using n p kw
    by (simp add: OpenAIModel_run_def Let_def example_env_def example_self_def
                  example_value_def StubModel_run_def)
  have config: "model_config_dict (example_self GPT_4)
       = [(''temperature'', PInt 1), (''max_tokens'', PInt 100)]"
    by (simp add: example_self_def)
  show ?thesis
    using run_overwrites_max_tokens [OF p n, of "[]" "[]"] p n config
    by (simp add: run)
qed

text \<open>
  C10 as stated fails: under the old client interface the table has no entry for
  "gpt-4-1106-preview", the lookup raises KeyError before the assignment, and the
  stored configuration keeps its old \<^verbatim>\<open>max_tokens\<close>; no request is sent.
\<close>

theorem run_unknown_model_keeps_config:
  "returned (OpenAIModel_run example_env (example_self GPT_4_TURBO) []
          [\<lparr>role = ''user'', content = ''Hi''\<rparr>] [])
     = Inl (KeyError ''gpt-4-1106-preview'')
   \<and> model_config_dict
         (self_after (OpenAIModel_run example_env (example_self GPT_4_TURBO) []
                      [\<lparr>role = ''user'', content = ''Hi''\<rparr>] []))
       = [(''temperature'', PInt 1), (''max_tokens'', PInt 100)]
   \<and> vendor_calls (OpenAIModel_run example_env (example_self GPT_4_TURBO) []
                      [\<lparr>role = ''user'', content = ''Hi''\<rparr>] []) = []"
proof -
  have p: "estimate_prompt_tokens example_env (example_self GPT_4_TURBO)
             [\<lparr>role = ''user'', content = ''Hi''\<rparr>] = Inr 17"
    by (simp add: example_estimate)
  have n: "num_max_token (openai_new_api example_env)
         (ModelType_value example_env (model_type (example_self GPT_4_TURBO)))
         = Inl (KeyError ''gpt-4-1106-preview'')"
    by (simp add: example_env_def example_self_def example_value_def num_max_token_def
                  num_max_token_map_def)
  show ?thesis
    using n p by (simp add: OpenAIModel_run_def Let_def) (simp add: example_self_def)
qed

end
